theory Spec2Isabelle
  imports Complex_Main
begin

section \<open>Python values, failures and list indexing\<close>

text \<open>
  The module \<^verbatim>\<open>travel_time_osrm_ch.py\<close> is written in Python 3. Every exception the three
  operations can raise is a value of \<open>py_error\<close>; an operation returns \<open>Inl e\<close> where the
  Python raises and \<open>Inr r\<close> where it returns \<open>r\<close>. \<open>RequestFailed\<close> stands for whatever
  \<^verbatim>\<open>httpclient.get\<close> or \<^verbatim>\<open>json.loads\<close> raise (transport failure, malformed JSON).
\<close>

datatype py_error = IndexError | KeyError | TypeError | OverflowError | RequestFailed

text \<open>
  An entry of the matrix under the key \<^verbatim>\<open>durations\<close>: a JSON number or \<^verbatim>\<open>null\<close>
  (Python \<^verbatim>\<open>None\<close>). A number is kept as the exact rational that \<^verbatim>\<open>json.loads\<close> produced,
  a Python int of any size or a finite float (the non-finite floats that \<^verbatim>\<open>json.loads\<close>
  makes of literals such as \<^verbatim>\<open>1e400\<close> or \<^verbatim>\<open>NaN\<close> are not values of this type). Python
  compares ints and floats exactly, so the comparisons of the scan are exact in this model.
\<close>

datatype json_value = Null | Num rat

text \<open>
  A coordinate is the Python list \<^verbatim>\<open>[longitude, latitude]\<close>, read as \<^verbatim>\<open>obj[0]\<close> and
  \<^verbatim>\<open>obj[1]\<close>: a pair, whose components have any type \<open>'n\<close> that Python's \<^verbatim>\<open>str\<close>
  can print.
\<close>

type_synonym 'n coordinate = "'n \<times> 'n"

text \<open>
  Python's \<^verbatim>\<open>xs[i]\<close>: a negative index counts from the end, and an index outside the
  list raises \<^verbatim>\<open>IndexError\<close>.
\<close>

definition py_getitem :: "'a list \<Rightarrow> int \<Rightarrow> py_error + 'a" where
  "py_getitem xs i =
     (if 0 \<le> i \<and> i < int (length xs) then Inr (xs ! nat i)
      else if i < 0 \<and> 0 \<le> int (length xs) + i then Inr (xs ! nat (int (length xs) + i))
      else Inl IndexError)"

text \<open>\<^verbatim>\<open>sys.maxsize\<close> of a 64-bit CPython build, \<open>2^63 - 1\<close>.\<close>

definition sys_maxsize :: rat where
  "sys_maxsize = 9223372036854775807"

text \<open>
  Python's true division \<^verbatim>\<open>x / 3600\<close> of a number by the int 3600. The result is the float
  nearest to the exact quotient; when that quotient rounds beyond the largest float, that is
  when its absolute value reaches \<open>2^1024 - 2^970\<close>, the division of an int raises
  \<^verbatim>\<open>OverflowError\<close> (a finite float divided by 3600 never gets there). The rounding itself
  is not modelled: the value of the quotient is the exact rational, so only equations of the
  form \<open>result = x / 3600\<close> are to be read off this model, not the sign of a quotient nor
  a product that undoes the division.
\<close>

definition float_overflow_bound :: rat where
  "float_overflow_bound = 2 ^ 1024 - 2 ^ 970"

definition truediv_3600 :: "rat \<Rightarrow> py_error + rat" where
  "truediv_3600 x =
     (if float_overflow_bound \<le> abs (x / 3600) then Inl OverflowError else Inr (x / 3600))"

section \<open>The outbound request\<close>

text \<open>
  What the module hands to \<^verbatim>\<open>httpclient.get\<close>: the URL, and the \<^verbatim>\<open>headers\<close> keyword
  argument (\<open>None\<close> when the call does not pass one).
\<close>

record http_call =
  call_url :: string
  call_headers :: "(string \<times> string) list option"

text \<open>The class attributes \<^verbatim>\<open>ip_address\<close>, \<^verbatim>\<open>port\<close>, \<^verbatim>\<open>url\<close> and \<^verbatim>\<open>headers\<close>.\<close>

definition ip_address :: string where
  "ip_address = ''127.0.0.1''"

definition port :: string where
  "port = ''5001''"

definition url :: string where
  "url = ''http://'' @ ip_address @ '':'' @ port @ ''/table/v1/driving/''"

definition headers :: "(string \<times> string) list" where
  "headers = [(''Content-Type'', ''application/json'')]"

text \<open>
  The loop \<^verbatim>\<open>for obj in locations: data += str(obj[0]) + "," + str(obj[1]) + ";"\<close>,
  started from \<^verbatim>\<open>data = ""\<close>. Python's \<^verbatim>\<open>str\<close> is a parameter.
\<close>

fun build_data :: "('n \<Rightarrow> string) \<Rightarrow> 'n coordinate list \<Rightarrow> string \<Rightarrow> string" where
  "build_data str [] data = data"
| "build_data str (obj # rest) data =
     build_data str rest (data @ (str (fst obj) @ '','' @ str (snd obj) @ '';''))"

text \<open>\<^verbatim>\<open>data.rstrip(';')\<close> removes every trailing semicolon.\<close>

definition rstrip_semicolon :: "string \<Rightarrow> string" where
  "rstrip_semicolon data = rev (dropWhile (\<lambda>c. c = CHR '';'') (rev data))"

definition data_obj :: "('n \<Rightarrow> string) \<Rightarrow> 'n coordinate list \<Rightarrow> string" where
  "data_obj str locations = rstrip_semicolon (build_data str locations [])"

text \<open>
  The three calls. Each operation calls \<^verbatim>\<open>httpclient.get(request)\<close> with the URL only;
  none passes \<^verbatim>\<open>headers=self.headers\<close>.
\<close>

definition many_to_one_request :: "('n \<Rightarrow> string) \<Rightarrow> 'n coordinate list \<Rightarrow> 'n coordinate \<Rightarrow> http_call" where
  "many_to_one_request str sources_longlats destination_longlat =
     (let locations = destination_longlat # sources_longlats;
          ending_url = ''?destinations=0&skip_waypoints=true'';
          request = url @ data_obj str locations @ ending_url
      in \<lparr>call_url = request, call_headers = None\<rparr>)"

definition one_to_many_request :: "('n \<Rightarrow> string) \<Rightarrow> 'n coordinate \<Rightarrow> 'n coordinate list \<Rightarrow> http_call" where
  "one_to_many_request str source_longlat destinations_longlats =
     (let locations = source_longlat # destinations_longlats;
          ending_url = ''?sources=0&skip_waypoints=true'';
          request = url @ data_obj str locations @ ending_url
      in \<lparr>call_url = request, call_headers = None\<rparr>)"

definition one_to_one_request :: "('n \<Rightarrow> string) \<Rightarrow> 'n coordinate \<Rightarrow> 'n coordinate \<Rightarrow> http_call" where
  "one_to_one_request str source_longlat destination_longlat =
     (let locations = [source_longlat] @ [destination_longlat];
          ending_url = ''?sources=0&destinations=1&skip_waypoints=true'';
          request = url @ data_obj str locations @ ending_url
      in \<lparr>call_url = request, call_headers = None\<rparr>)"

section \<open>The response and the scan for the shortest travel time\<close>

text \<open>
  The object \<^verbatim>\<open>json.loads(response.text)\<close>: the value under the key \<^verbatim>\<open>durations\<close>, a
  list of rows of entries, or \<open>None\<close> when the key is absent (the lookup then raises
  \<^verbatim>\<open>KeyError\<close>).
\<close>

record response_json =
  durations :: "json_value list list option"

text \<open>
  The loop of many-to-one and one-to-many,

  \<^verbatim>\<open>for idx, obj in enumerate(...): duration = ...; if 0 < duration < travel_time: travel_time = duration; saved_idx = idx - 1\<close>

  with the loop state \<open>(travel_time, saved_idx)\<close>. The two operations differ only in how
  \<^verbatim>\<open>duration\<close> is read from \<^verbatim>\<open>obj\<close> (\<^verbatim>\<open>obj[0]\<close>, which can raise, or \<^verbatim>\<open>obj\<close> itself):
  that is the parameter \<open>duration_of\<close>. The chained comparison evaluates \<^verbatim>\<open>0 < duration\<close>
  first, which raises \<^verbatim>\<open>TypeError\<close> when \<^verbatim>\<open>duration\<close> is \<^verbatim>\<open>None\<close>.
\<close>

fun shortest_loop ::
  "('r \<Rightarrow> py_error + json_value) \<Rightarrow> 'r list \<Rightarrow> int \<Rightarrow> rat \<times> int \<Rightarrow> py_error + rat \<times> int" where
  "shortest_loop duration_of [] idx (travel_time, saved_idx) = Inr (travel_time, saved_idx)"
| "shortest_loop duration_of (obj # rest) idx (travel_time, saved_idx) =
     (case duration_of obj of
        Inl e \<Rightarrow> Inl e
      | Inr Null \<Rightarrow> Inl TypeError
      | Inr (Num duration) \<Rightarrow>
          if 0 < duration \<and> duration < travel_time
          then shortest_loop duration_of rest (idx + 1) (duration, idx - 1)
          else shortest_loop duration_of rest (idx + 1) (travel_time, saved_idx))"

text \<open>The scan of many-to-one (source lines 78 to 86): column 0 of every row.\<close>

definition many_to_one_scan :: "json_value list list \<Rightarrow> py_error + rat \<times> int" where
  "many_to_one_scan rows = shortest_loop (\<lambda>obj. py_getitem obj 0) rows 0 (sys_maxsize, - 1)"

text \<open>The scan of one-to-many (source lines 147 to 155): the entries of one row.\<close>

definition one_to_many_scan :: "json_value list \<Rightarrow> py_error + rat \<times> int" where
  "one_to_many_scan row = shortest_loop Inr row 0 (sys_maxsize, - 1)"

text \<open>
  What the scan of many-to-one reads from each row: \<^verbatim>\<open>obj[0]\<close>, or the
  \<^verbatim>\<open>IndexError\<close> of an empty row.
\<close>

definition column0 :: "json_value list list \<Rightarrow> (py_error + json_value) list" where
  "column0 rows = map (\<lambda>obj. py_getitem obj 0) rows"

section \<open>The three operations\<close>

text \<open>
  \<open>httpclient_get\<close> is the outside world: the routing server's answer to a call, already
  through \<^verbatim>\<open>json.loads\<close>, or the failure of either step. In many-to-one and one-to-many
  the division \<^verbatim>\<open>travel_time / 3600\<close> cannot raise, since \<^verbatim>\<open>travel_time\<close> is positive and
  at most \<^verbatim>\<open>sys.maxsize\<close>; in one-to-one the number read from the matrix is divided as it
  is, and the division can raise.
\<close>

definition get_travel_time_many_to_one ::
  "('n \<Rightarrow> string) \<Rightarrow> (http_call \<Rightarrow> py_error + response_json) \<Rightarrow>
   'n coordinate list \<Rightarrow> 'n coordinate \<Rightarrow> py_error + rat \<times> 'n coordinate \<times> 'n coordinate" where
  "get_travel_time_many_to_one str httpclient_get sources_longlats destination_longlat =
     (case httpclient_get (many_to_one_request str sources_longlats destination_longlat) of
        Inl e \<Rightarrow> Inl e
      | Inr response \<Rightarrow>
          (case durations response of
             None \<Rightarrow> Inl KeyError
           | Some rows \<Rightarrow>
               (case many_to_one_scan rows of
                  Inl e \<Rightarrow> Inl e
                | Inr (travel_time, saved_idx) \<Rightarrow>
                    (case py_getitem sources_longlats saved_idx of
                       Inl e \<Rightarrow> Inl e
                     | Inr source \<Rightarrow> Inr (travel_time / 3600, source, destination_longlat)))))"

definition get_travel_time_one_to_many ::
  "('n \<Rightarrow> string) \<Rightarrow> (http_call \<Rightarrow> py_error + response_json) \<Rightarrow>
   'n coordinate \<Rightarrow> 'n coordinate list \<Rightarrow> py_error + rat \<times> 'n coordinate \<times> 'n coordinate" where
  "get_travel_time_one_to_many str httpclient_get source_longlat destinations_longlats =
     (case httpclient_get (one_to_many_request str source_longlat destinations_longlats) of
        Inl e \<Rightarrow> Inl e
      | Inr response \<Rightarrow>
          (case durations response of
             None \<Rightarrow> Inl KeyError
           | Some rows \<Rightarrow>
               (case py_getitem rows 0 of
                  Inl e \<Rightarrow> Inl e
                | Inr row \<Rightarrow>
                    (case one_to_many_scan row of
                       Inl e \<Rightarrow> Inl e
                     | Inr (travel_time, saved_idx) \<Rightarrow>
                         (case py_getitem destinations_longlats saved_idx of
                            Inl e \<Rightarrow> Inl e
                          | Inr destination \<Rightarrow> Inr (travel_time / 3600, destination, source_longlat))))))"

definition get_travel_time_one_to_one ::
  "('n \<Rightarrow> string) \<Rightarrow> (http_call \<Rightarrow> py_error + response_json) \<Rightarrow>
   'n coordinate \<Rightarrow> 'n coordinate \<Rightarrow> py_error + rat \<times> 'n coordinate \<times> 'n coordinate" where
  "get_travel_time_one_to_one str httpclient_get source_longlat destination_longlat =
     (case httpclient_get (one_to_one_request str source_longlat destination_longlat) of
        Inl e \<Rightarrow> Inl e
      | Inr response \<Rightarrow>
          (case durations response of
             None \<Rightarrow> Inl KeyError
           | Some rows \<Rightarrow>
               (case py_getitem rows 0 of
                  Inl e \<Rightarrow> Inl e
                | Inr row \<Rightarrow>
                    (case py_getitem row 0 of
                       Inl e \<Rightarrow> Inl e
                     | Inr Null \<Rightarrow> Inl TypeError
                     | Inr (Num seconds) \<Rightarrow>
                         (case truediv_3600 seconds of
                            Inl e \<Rightarrow> Inl e
                          | Inr travel_time \<Rightarrow> Inr (travel_time, source_longlat, destination_longlat))))))"

section \<open>A mocked server and Python's \<^verbatim>\<open>str\<close> on integers\<close>

text \<open>
  A server that answers every call with the same matrix under \<^verbatim>\<open>durations\<close>: the mocked
  service response of the test properties.
\<close>

definition mocked :: "json_value list list \<Rightarrow> http_call \<Rightarrow> py_error + response_json" where
  "mocked rows call = Inr \<lparr>durations = Some rows\<rparr>"

text \<open>
  Python's \<^verbatim>\<open>str\<close> on an \<^verbatim>\<open>int\<close>: the decimal digits, after a minus sign when the number
  is negative. It instantiates the parameter \<open>str\<close> in the concrete instances below.
\<close>

function str_nat :: "nat \<Rightarrow> string" where
  "str_nat n =
     (if n < 10 then [''0123456789'' ! n]
      else str_nat (n div 10) @ [''0123456789'' ! (n mod 10)])"
  by pat_completeness auto
termination
  by (relation "measure id") auto

declare str_nat.simps [simp del]

definition str_int :: "int \<Rightarrow> string" where
  "str_int i = (if i < 0 then CHR ''-'' # str_nat (nat (- i)) else str_nat (nat i))"

text \<open>
  Python's \<^verbatim>\<open>int\<close> on a plain decimal literal, the way back: the value of the digits,
  negated after a minus sign. Any other string is refused (\<^verbatim>\<open>ValueError\<close>).
\<close>

definition digit_of :: "char \<Rightarrow> nat" where
  "digit_of c = length (takeWhile (\<lambda>d. d \<noteq> c) ''0123456789'')"

definition nat_of_str :: "string \<Rightarrow> nat option" where
  "nat_of_str s =
     (if s \<noteq> [] \<and> list_all (\<lambda>c. c \<in> set ''0123456789'') s
      then Some (foldl (\<lambda>a c. 10 * a + digit_of c) 0 s) else None)"

definition int_of_str :: "string \<Rightarrow> int option" where
  "int_of_str s =
     (case s of
        [] \<Rightarrow> None
      | c # cs \<Rightarrow>
          if c = CHR ''-'' then map_option (\<lambda>n. - int n) (nat_of_str cs)
          else map_option int (nat_of_str s))"

section \<open>The request string in the specification's words\<close>

text \<open>
  The specification describes the coordinates of a request as
  \<^verbatim>\<open>longitude,latitude\<close> pairs joined by \<^verbatim>\<open>;\<close> with no trailing separator. These two
  definitions follow those words, for comparison with \<open>data_obj\<close>, which follows the code.
\<close>

definition spec_pair :: "('n \<Rightarrow> string) \<Rightarrow> 'n coordinate \<Rightarrow> string" where
  "spec_pair str obj = str (fst obj) @ '','' @ str (snd obj)"

fun spec_joined :: "string list \<Rightarrow> string" where
  "spec_joined [] = []"
| "spec_joined [p] = p"
| "spec_joined (p # q # ps) = p @ '';'' @ spec_joined (q # ps)"

text \<open>
  Re-parsing, in the same words: the request string is split at every \<^verbatim>\<open>;\<close> (as Python's
  \<^verbatim>\<open>split\<close> does, so that a trailing separator leaves an empty last item), every item is
  split at \<^verbatim>\<open>,\<close> into exactly a longitude and a latitude, and both are read back by
  \<open>unstr\<close>, the inverse of \<^verbatim>\<open>str\<close> (Python's \<^verbatim>\<open>float\<close> or \<^verbatim>\<open>int\<close>). The empty string
  is the empty list. The module itself has no parser.
\<close>

fun split_on :: "char \<Rightarrow> string \<Rightarrow> string list" where
  "split_on sep [] = [[]]"
| "split_on sep (c # cs) =
     (if c = sep then [] # split_on sep cs
      else (case split_on sep cs of
              [] \<Rightarrow> [[c]]
            | item # items \<Rightarrow> (c # item) # items))"

definition spec_parse_pair :: "(string \<Rightarrow> 'n option) \<Rightarrow> string \<Rightarrow> 'n coordinate option" where
  "spec_parse_pair unstr item =
     (case split_on CHR '','' item of
        [lon, lat] \<Rightarrow>
          (case unstr lon of
             None \<Rightarrow> None
           | Some x \<Rightarrow> (case unstr lat of None \<Rightarrow> None | Some y \<Rightarrow> Some (x, y)))
      | _ \<Rightarrow> None)"

definition spec_parse :: "(string \<Rightarrow> 'n option) \<Rightarrow> string \<Rightarrow> 'n coordinate list option" where
  "spec_parse unstr data =
     (if data = [] then Some [] else those (map (spec_parse_pair unstr) (split_on CHR '';'' data)))"

section \<open>Properties of the scan\<close>

text \<open>
  When \<^verbatim>\<open>duration\<close> is read without failure from every object, the loop is the loop
  over the entries read.
\<close>

lemma shortest_loop_map:
  "map duration_of objs = map Inr es \<Longrightarrow>
   shortest_loop duration_of objs idx st = shortest_loop Inr es idx st"
proof (induction objs arbitrary: es idx st)
  case Nil
  then show ?case by (cases st) simp
next
  case (Cons obj rest)
  then obtain e es' where es: "es = e # es'" "duration_of obj = Inr e" "map duration_of rest = map Inr es'"
    by (cases es) auto
  show ?case
    using Cons.IH [OF es(3)] es(1,2)
    by (cases st; cases e) simp_all
qed

text \<open>Over numbers none of which lies strictly between 0 and the current best, the state is kept.\<close>

lemma shortest_loop_no_candidate:
  "\<forall>d\<in>set ds. \<not> (0 < d \<and> d < travel_time) \<Longrightarrow>
   shortest_loop Inr (map Num ds) idx (travel_time, saved_idx) = Inr (travel_time, saved_idx)"
  by (induction ds arbitrary: idx) auto

text \<open>
  Over numbers, when position \<open>k\<close> is the first to hold the least strictly positive entry
  and that entry is below the current best, the loop ends with that entry and with
  \<open>idx + k - 1\<close>.
\<close>

lemma shortest_loop_winner:
  "k < length ds \<Longrightarrow> 0 < ds ! k \<Longrightarrow> ds ! k < travel_time \<Longrightarrow>
   \<forall>j<length ds. 0 < ds ! j \<longrightarrow> ds ! k \<le> ds ! j \<Longrightarrow>
   \<forall>j<k. ds ! j \<noteq> ds ! k \<Longrightarrow>
   shortest_loop Inr (map Num ds) idx (travel_time, saved_idx) = Inr (ds ! k, idx + int k - 1)"
proof (induction ds arbitrary: k idx travel_time saved_idx)
  case Nil
  then show ?case by simp
next
  case (Cons d ds)
  show ?case
  proof (cases k)
    case 0
    have "\<forall>x\<in>set ds. \<not> (0 < x \<and> x < d)"
    proof
      fix x assume "x \<in> set ds"
      then obtain j where j: "j < length ds" "ds ! j = x" by (auto simp: in_set_conv_nth)
      show "\<not> (0 < x \<and> x < d)"
      proof
        assume x: "0 < x \<and> x < d"
        then have "Suc j < length (d # ds)" "0 < (d # ds) ! Suc j" using j by simp_all
        with Cons.prems(4) have "(d # ds) ! k \<le> (d # ds) ! Suc j" by blast
        then show False using 0 j x by simp
      qed
    qed
    then show ?thesis
      using Cons.prems 0 by (simp add: shortest_loop_no_candidate)
  next
    case (Suc k')
    have k': "k' < length ds" "0 < ds ! k'" "ds ! k' < travel_time"
      using Cons.prems Suc by simp_all
    have min': "\<forall>j<length ds. 0 < ds ! j \<longrightarrow> ds ! k' \<le> ds ! j"
    proof (intro allI impI)
      fix j assume "j < length ds" "0 < ds ! j"
      then have "Suc j < length (d # ds)" "0 < (d # ds) ! Suc j" by simp_all
      with Cons.prems(4) have "(d # ds) ! k \<le> (d # ds) ! Suc j" by blast
      then show "ds ! k' \<le> ds ! j" using Suc by simp
    qed
    have first': "\<forall>j<k'. ds ! j \<noteq> ds ! k'"
    proof (intro allI impI)
      fix j assume "j < k'"
      then have "Suc j < k" using Suc by simp
      with Cons.prems(5) have "(d # ds) ! Suc j \<noteq> (d # ds) ! k" by blast
      then show "ds ! j \<noteq> ds ! k'" using Suc by simp
    qed
    have hd_ne: "d \<noteq> ds ! k'"
    proof -
      have "0 < k" using Suc by simp
      with Cons.prems(5) have "(d # ds) ! 0 \<noteq> (d # ds) ! k" by blast
      then show ?thesis using Suc by simp
    qed
    have hd_ge: "ds ! k' < d" if "0 < d"
    proof -
      have "0 < length (d # ds)" "0 < (d # ds) ! 0" using that by simp_all
      with Cons.prems(4) have "(d # ds) ! k \<le> (d # ds) ! 0" by blast
      then show ?thesis using Suc hd_ne by simp
    qed
    show ?thesis
    proof (cases "0 < d \<and> d < travel_time")
      case True
      then have "ds ! k' < d" using hd_ge by simp
      from Cons.IH [OF k'(1,2) this min' first', of "idx + 1" "idx - 1"]
      show ?thesis using True Suc by simp
    next
      case False
      from Cons.IH [OF k' min' first', of "idx + 1" saved_idx]
      show ?thesis using False Suc by auto
    qed
  qed
qed

text \<open>
  Whenever the loop completes, it has either kept its initial state or taken a strictly
  positive entry below the initial best, at the first position that holds that entry.
\<close>

lemma shortest_loop_result:
  "shortest_loop duration_of objs idx (travel_time, saved_idx) = Inr (t, s) \<Longrightarrow>
   (t = travel_time \<and> s = saved_idx) \<or>
   (\<exists>k<length objs. duration_of (objs ! k) = Inr (Num t) \<and> 0 < t \<and> t < travel_time
       \<and> s = idx + int k - 1 \<and> (\<forall>j<k. duration_of (objs ! j) \<noteq> Inr (Num t)))"
proof (induction objs arbitrary: idx travel_time saved_idx)
  case Nil
  then show ?case by simp
next
  case (Cons obj rest)
  from Cons.prems obtain d where d: "duration_of obj = Inr (Num d)"
    by (auto split: sum.splits json_value.splits)
  show ?case
  proof (cases "0 < d \<and> d < travel_time")
    case True
    then have run: "shortest_loop duration_of rest (idx + 1) (d, idx - 1) = Inr (t, s)"
      using Cons.prems d by simp
    from Cons.IH [OF run] show ?thesis
    proof
      assume "t = d \<and> s = idx - 1"
      then have "duration_of ((obj # rest) ! 0) = Inr (Num t) \<and> 0 < t \<and> t < travel_time
          \<and> s = idx + int 0 - 1 \<and> (\<forall>j<0. duration_of ((obj # rest) ! j) \<noteq> Inr (Num t))"
        using True d by simp
      then show ?thesis by blast
    next
      assume "\<exists>k<length rest. duration_of (rest ! k) = Inr (Num t) \<and> 0 < t \<and> t < d
          \<and> s = idx + 1 + int k - 1 \<and> (\<forall>j<k. duration_of (rest ! j) \<noteq> Inr (Num t))"
      then obtain k where k: "k < length rest" "duration_of (rest ! k) = Inr (Num t)" "0 < t" "t < d"
          "s = idx + 1 + int k - 1" "\<forall>j<k. duration_of (rest ! j) \<noteq> Inr (Num t)"
        by blast
      have "\<forall>j<Suc k. duration_of ((obj # rest) ! j) \<noteq> Inr (Num t)"
        using k(4,6) d by (auto simp: nth_Cons split: nat.splits)
      then have "Suc k < length (obj # rest) \<and> duration_of ((obj # rest) ! Suc k) = Inr (Num t)
          \<and> 0 < t \<and> t < travel_time \<and> s = idx + int (Suc k) - 1
          \<and> (\<forall>j<Suc k. duration_of ((obj # rest) ! j) \<noteq> Inr (Num t))"
        using k True by simp
      then show ?thesis by blast
    qed
  next
    case False
    then have run: "shortest_loop duration_of rest (idx + 1) (travel_time, saved_idx) = Inr (t, s)"
      using Cons.prems d by auto
    from Cons.IH [OF run] show ?thesis
    proof
      assume "t = travel_time \<and> s = saved_idx"
      then show ?thesis by simp
    next
      assume "\<exists>k<length rest. duration_of (rest ! k) = Inr (Num t) \<and> 0 < t \<and> t < travel_time
          \<and> s = idx + 1 + int k - 1 \<and> (\<forall>j<k. duration_of (rest ! j) \<noteq> Inr (Num t))"
      then obtain k where k: "k < length rest" "duration_of (rest ! k) = Inr (Num t)" "0 < t" "t < travel_time"
          "s = idx + 1 + int k - 1" "\<forall>j<k. duration_of (rest ! j) \<noteq> Inr (Num t)"
        by blast
      have "d \<noteq> t" using False k(3,4) by auto
      then have "\<forall>j<Suc k. duration_of ((obj # rest) ! j) \<noteq> Inr (Num t)"
        using k(6) d by (auto simp: nth_Cons split: nat.splits)
      then have "Suc k < length (obj # rest) \<and> duration_of ((obj # rest) ! Suc k) = Inr (Num t)
          \<and> 0 < t \<and> t < travel_time \<and> s = idx + int (Suc k) - 1
          \<and> (\<forall>j<Suc k. duration_of ((obj # rest) ! j) \<noteq> Inr (Num t))"
        using k by simp
      then show ?thesis by blast
    qed
  qed
qed

lemma many_to_one_scan_column:
  "column0 rows = map (\<lambda>d. Inr (Num d)) ds \<Longrightarrow>
   many_to_one_scan rows = shortest_loop Inr (map Num ds) 0 (sys_maxsize, - 1)"
  unfolding many_to_one_scan_def column0_def
  by (rule shortest_loop_map) simp

text \<open>What a returned result says about the scan and the lookup behind it.\<close>

lemma many_to_one_returns:
  assumes "get_travel_time_many_to_one str httpclient_get sources_longlats destination_longlat = Inr (t, c, d)"
    and "httpclient_get (many_to_one_request str sources_longlats destination_longlat) = Inr response"
    and "durations response = Some rows"
  shows "\<exists>travel_time saved_idx. many_to_one_scan rows = Inr (travel_time, saved_idx)
           \<and> t = travel_time / 3600 \<and> py_getitem sources_longlats saved_idx = Inr c"
  using assms
  by (auto simp: get_travel_time_many_to_one_def split: sum.splits prod.splits)

lemma one_to_many_returns:
  assumes "get_travel_time_one_to_many str httpclient_get source_longlat destinations_longlats = Inr (t, c, d)"
    and "httpclient_get (one_to_many_request str source_longlat destinations_longlats) = Inr response"
    and "durations response = Some (row # rows)"
  shows "\<exists>travel_time saved_idx. one_to_many_scan row = Inr (travel_time, saved_idx)
           \<and> t = travel_time / 3600 \<and> py_getitem destinations_longlats saved_idx = Inr c"
proof -
  have "py_getitem (row # rows) 0 = Inr row"
    by (simp add: py_getitem_def)
  then show ?thesis
    using assms
    by (auto simp: get_travel_time_one_to_many_def split: sum.splits prod.splits)
qed

section \<open>One-to-one\<close>

text \<open>
  Claim C2, in the form that holds of the code. Whenever the server's answer to a
  one-to-one call has a number \<open>seconds\<close> at row 0, column 0 of \<^verbatim>\<open>durations\<close>, and the
  quotient of that number by 3600 is within the range of a float, the operation returns
  that number divided by 3600 together with the source and the destination it was given,
  unchanged. Nothing else of the matrix is read. The instance \<^verbatim>\<open>durations=[[1800]]\<close> gives
  one half.
\<close>

theorem one_to_one_returns_entry:
  assumes "httpclient_get (one_to_one_request str source_longlat destination_longlat) = Inr response"
    and "durations response = Some ((Num seconds # row) # rows)"
    and "abs (seconds / 3600) < float_overflow_bound"
  shows "get_travel_time_one_to_one str httpclient_get source_longlat destination_longlat
         = Inr (seconds / 3600, source_longlat, destination_longlat)"
  using assms by (simp add: get_travel_time_one_to_one_def py_getitem_def truediv_3600_def)

theorem one_to_one_returns_entry_witness:
  "get_travel_time_one_to_one str_int (mocked [[Num 1800]]) (13, 55) (14, 56)
     = Inr (1 / 2, (13, 55), (14, 56))"
  using one_to_one_returns_entry [of "mocked [[Num 1800]]" str_int "(13, 55)" "(14, 56)"
      "\<lparr>durations = Some [[Num 1800]]\<rparr>" 1800 "[]" "[]"]
  by (simp add: mocked_def float_overflow_bound_def)

text \<open>
  Claim C2 as stated fails: for an unreachable pair the single entry is \<^verbatim>\<open>null\<close>, and
  \<^verbatim>\<open>None / 3600\<close> raises \<^verbatim>\<open>TypeError\<close>.
\<close>

theorem one_to_one_null_counterexample:
  "get_travel_time_one_to_one str_int (mocked [[Null]]) (13, 55) (14, 56) = Inl TypeError"
  by (simp add: get_travel_time_one_to_one_def mocked_def py_getitem_def)

text \<open>
  The other two ways in which a one-to-one call returns nothing: an integer entry so large
  that its quotient by 3600 is beyond every float raises \<^verbatim>\<open>OverflowError\<close>, and a matrix
  without a row 0 raises \<^verbatim>\<open>IndexError\<close>.
\<close>

lemma one_to_one_too_large:
  "get_travel_time_one_to_one str_int (mocked [[Num (10 ^ 400)]]) (13, 55) (14, 56)
     = Inl OverflowError"
  by (simp add: get_travel_time_one_to_one_def mocked_def py_getitem_def truediv_3600_def
      float_overflow_bound_def)

lemma one_to_one_empty_matrix:
  "get_travel_time_one_to_one str_int (mocked []) (13, 55) (14, 56) = Inl IndexError"
  by (simp add: get_travel_time_one_to_one_def mocked_def py_getitem_def)

text \<open>
  Claim C10, in the form that holds of the code. One-to-one applies no positivity filter:
  whatever the sign of the number at row 0, column 0, it is divided by 3600 and returned,
  provided the quotient is within the range of a float. When the number is zero or negative,
  the scans of one-to-many and of many-to-one over that same single entry reject it and keep
  the sentinel.
\<close>

theorem one_to_one_no_filter:
  assumes "httpclient_get (one_to_one_request str source_longlat destination_longlat) = Inr response"
    and "durations response = Some ((Num seconds # row) # rows)"
    and "abs (seconds / 3600) < float_overflow_bound"
  shows "get_travel_time_one_to_one str httpclient_get source_longlat destination_longlat
           = Inr (seconds / 3600, source_longlat, destination_longlat)
         \<and> (seconds \<le> 0 \<longrightarrow>
              one_to_many_scan [Num seconds] = Inr (sys_maxsize, - 1)
              \<and> many_to_one_scan [[Num seconds]] = Inr (sys_maxsize, - 1))"
  using assms
  by (simp add: get_travel_time_one_to_one_def py_getitem_def one_to_many_scan_def
      many_to_one_scan_def truediv_3600_def)

theorem one_to_one_no_filter_witness:
  "get_travel_time_one_to_one str_int (mocked [[Num (- 7200)]]) (13, 55) (14, 56)
     = Inr (- 7200 / 3600, (13, 55), (14, 56))
   \<and> one_to_many_scan [Num (- 7200)] = Inr (sys_maxsize, - 1)
   \<and> many_to_one_scan [[Num (- 7200)]] = Inr (sys_maxsize, - 1)"
  using one_to_one_no_filter [of "mocked [[Num (- 7200)]]" str_int "(13, 55)" "(14, 56)"
      "\<lparr>durations = Some [[Num (- 7200)]]\<rparr>" "- 7200" "[]" "[]"]
  by (simp add: mocked_def float_overflow_bound_def)

text \<open>
  Claim C10 as stated fails: the entry below is a number, a negative integer, and the
  operation does not return it divided by 3600 but raises \<^verbatim>\<open>OverflowError\<close>.
\<close>

theorem one_to_one_overflow_counterexample:
  "get_travel_time_one_to_one str_int (mocked [[Num (- (10 ^ 400))]]) (13, 55) (14, 56)
     = Inl OverflowError"
  by (simp add: get_travel_time_one_to_one_def mocked_def py_getitem_def truediv_3600_def
      float_overflow_bound_def)

section \<open>The request headers\<close>

text \<open>
  Claim C8. The class declares \<^verbatim>\<open>headers = {'Content-Type': 'application/json'}\<close> under
  the comment "Required header to make call to OSRM server", but each of the three
  operations calls \<^verbatim>\<open>httpclient.get(request)\<close> with the URL alone: the \<^verbatim>\<open>headers\<close>
  argument of every outbound call is absent, so the declared header is never sent.
\<close>

theorem content_type_header_not_sent:
  "call_headers (many_to_one_request str sources_longlats destination_longlat) = None
   \<and> call_headers (one_to_many_request str' source_longlat destinations_longlats) = None
   \<and> call_headers (one_to_one_request str'' source_longlat' destination_longlat') = None
   \<and> Some headers \<noteq> None"
  by (simp add: many_to_one_request_def one_to_many_request_def one_to_one_request_def Let_def)

section \<open>Many-to-one\<close>

text \<open>
  Claim C1, in the form that holds of the code. Let column 0 of the response hold numbers only, \<open>ds\<close>, and let
  \<open>k\<close> be the first row whose entry is the least strictly positive one, that entry being
  below \<^verbatim>\<open>sys.maxsize\<close>. If the Python lookup \<^verbatim>\<open>sources_longlats[k - 1]\<close> succeeds
  (for \<open>k = 0\<close> it is index \<open>-1\<close>, the last source), many-to-one returns that entry
  divided by 3600, the source looked up, and the destination. The concrete instance has the
  sources A, B, C and the destination-first column 0, 100, 50, 200: source B (index 1) is
  selected and the travel time is 50/3600.
\<close>

theorem many_to_one_selects_minimum:
  assumes "httpclient_get (many_to_one_request str sources_longlats destination_longlat) = Inr response"
    and "durations response = Some rows"
    and "column0 rows = map (\<lambda>d. Inr (Num d)) ds"
    and "k < length ds" and "0 < ds ! k" and "ds ! k < sys_maxsize"
    and "\<forall>j<length ds. 0 < ds ! j \<longrightarrow> ds ! k \<le> ds ! j"
    and "\<forall>j<k. ds ! j \<noteq> ds ! k"
    and "py_getitem sources_longlats (int k - 1) = Inr source"
  shows "get_travel_time_many_to_one str httpclient_get sources_longlats destination_longlat
         = Inr (ds ! k / 3600, source, destination_longlat)"
proof -
  have "many_to_one_scan rows = Inr (ds ! k, 0 + int k - 1)"
    using many_to_one_scan_column [OF assms(3)] shortest_loop_winner [OF assms(4-8)] by simp
  then show ?thesis
    using assms(1,2,9) by (simp add: get_travel_time_many_to_one_def)
qed

theorem many_to_one_selects_minimum_witness:
  "get_travel_time_many_to_one str_int (mocked [[Num 0], [Num 100], [Num 50], [Num 200]])
     [(11, 51), (12, 52), (13, 53)] (14, 54)
   = Inr (50 / 3600, (12, 52), (14, 54))"
proof -
  have get: "mocked [[Num 0], [Num 100], [Num 50], [Num 200]]
      (many_to_one_request str_int [(11, 51), (12, 52), (13, 53)] (14, 54))
      = Inr \<lparr>durations = Some [[Num 0], [Num 100], [Num 50], [Num 200]]\<rparr>"
    by (simp add: mocked_def)
  have col: "column0 [[Num 0], [Num 100], [Num 50], [Num 200]]
      = map (\<lambda>d. Inr (Num d)) [0, 100, 50, 200]"
    by (simp add: column0_def py_getitem_def)
  have k: "(2::nat) < length [0::rat, 100, 50, 200]" "0 < [0::rat, 100, 50, 200] ! 2"
      "[0::rat, 100, 50, 200] ! 2 < sys_maxsize"
    by (simp_all add: sys_maxsize_def)
  have least: "\<forall>j<length [0::rat, 100, 50, 200]. 0 < [0::rat, 100, 50, 200] ! j
      \<longrightarrow> [0::rat, 100, 50, 200] ! 2 \<le> [0::rat, 100, 50, 200] ! j"
    by (auto simp: less_Suc_eq)
  have first: "\<forall>j<2. [0::rat, 100, 50, 200] ! j \<noteq> [0::rat, 100, 50, 200] ! 2"
    by (auto simp: less_Suc_eq numeral_2_eq_2)
  have look: "py_getitem [(11::int, 51::int), (12, 52), (13, 53)] (int 2 - 1) = Inr (12, 52)"
    by (simp add: py_getitem_def)
  show ?thesis
    using many_to_one_selects_minimum [where httpclient_get = "mocked [[Num 0], [Num 100], [Num 50], [Num 200]]"
        and str = str_int and rows = "[[Num 0], [Num 100], [Num 50], [Num 200]]"
        and ds = "[0, 100, 50, 200]" and k = 2, OF get _ col k least first look]
    by simp
qed

text \<open>
  Claim C1 as stated fails: the column below contains the strictly positive duration 50, but
  the \<^verbatim>\<open>null\<close> of an unreachable source makes \<^verbatim>\<open>0 < duration\<close> raise
  \<^verbatim>\<open>TypeError\<close>, and nothing is returned.
\<close>

theorem many_to_one_null_counterexample:
  "get_travel_time_many_to_one str_int (mocked [[Num 0], [Null], [Num 50]])
     [(11, 51), (12, 52)] (14, 54) = Inl TypeError"
  by (simp add: get_travel_time_many_to_one_def mocked_def many_to_one_scan_def py_getitem_def
      sys_maxsize_def)

text \<open>
  Two more instances show what the other hypotheses are for. When the response has exactly
  one row per source (no row for the destination itself), the row index minus one points
  one source too early: for the column 100, 50, 200 the source returned is A (index 0), not
  B. And a positive duration that is not below \<^verbatim>\<open>sys.maxsize\<close> is never taken.
\<close>

lemma many_to_one_three_row_column:
  "get_travel_time_many_to_one str_int (mocked [[Num 100], [Num 50], [Num 200]])
     [(11, 51), (12, 52), (13, 53)] (14, 54) = Inr (50 / 3600, (11, 51), (14, 54))"
  by (simp add: get_travel_time_many_to_one_def mocked_def many_to_one_scan_def py_getitem_def
      sys_maxsize_def)

lemma many_to_one_beyond_sentinel:
  "get_travel_time_many_to_one str_int (mocked [[Num 0], [Num 10000000000000000000]])
     [(11, 51)] (14, 54) = Inr (sys_maxsize / 3600, (11, 51), (14, 54))"
  by (simp add: get_travel_time_many_to_one_def mocked_def many_to_one_scan_def py_getitem_def
      sys_maxsize_def)

section \<open>One-to-many\<close>

text \<open>
  Claim C3, in the form that holds of the code. Let the first response row hold numbers only, \<open>ds\<close>, and let
  \<open>k\<close> be the first position whose entry is the least strictly positive one, that entry
  being below \<^verbatim>\<open>sys.maxsize\<close>. If \<open>k\<close> is not position 0 (the source's own entry) and
  the row is no longer than the request list, one-to-many returns that entry divided by
  3600, the element \<open>k - 1\<close> of the original destinations list, which is the element
  \<open>k\<close> of the combined request list, and the source.
\<close>

theorem one_to_many_selects_minimum:
  assumes "httpclient_get (one_to_many_request str source_longlat destinations_longlats) = Inr response"
    and "durations response = Some (map Num ds # rows)"
    and "k < length ds" and "0 < ds ! k" and "ds ! k < sys_maxsize"
    and "\<forall>j<length ds. 0 < ds ! j \<longrightarrow> ds ! k \<le> ds ! j"
    and "\<forall>j<k. ds ! j \<noteq> ds ! k"
    and "0 < k" and "k \<le> length destinations_longlats"
  shows "get_travel_time_one_to_many str httpclient_get source_longlat destinations_longlats
           = Inr (ds ! k / 3600, destinations_longlats ! (k - 1), source_longlat)
         \<and> destinations_longlats ! (k - 1) = (source_longlat # destinations_longlats) ! k"
proof -
  have scan: "one_to_many_scan (map Num ds) = Inr (ds ! k, 0 + int k - 1)"
    unfolding one_to_many_scan_def by (rule shortest_loop_winner [OF assms(3-7)])
  have look: "py_getitem destinations_longlats (int k - 1) = Inr (destinations_longlats ! (k - 1))"
    using assms(8,9) by (simp add: py_getitem_def nat_diff_distrib')
  show ?thesis
    using assms(1,2,8) scan look
    by (simp add: get_travel_time_one_to_many_def py_getitem_def nth_Cons')
qed

theorem one_to_many_selects_minimum_witness:
  "get_travel_time_one_to_many str_int (mocked [[Num 0, Num 100, Num 50, Num 50]])
     (14, 54) [(11, 51), (12, 52), (13, 53)]
   = Inr (50 / 3600, (12, 52), (14, 54))"
proof -
  have get: "mocked [[Num 0, Num 100, Num 50, Num 50]]
      (one_to_many_request str_int (14, 54) [(11, 51), (12, 52), (13, 53)])
      = Inr \<lparr>durations = Some (map Num [0, 100, 50, 50] # [])\<rparr>"
    by (simp add: mocked_def)
  have k: "(2::nat) < length [0::rat, 100, 50, 50]" "0 < [0::rat, 100, 50, 50] ! 2"
      "[0::rat, 100, 50, 50] ! 2 < sys_maxsize"
    by (simp_all add: sys_maxsize_def)
  have least: "\<forall>j<length [0::rat, 100, 50, 50]. 0 < [0::rat, 100, 50, 50] ! j
      \<longrightarrow> [0::rat, 100, 50, 50] ! 2 \<le> [0::rat, 100, 50, 50] ! j"
    by (auto simp: less_Suc_eq)
  have first: "\<forall>j<2. [0::rat, 100, 50, 50] ! j \<noteq> [0::rat, 100, 50, 50] ! 2"
    by (auto simp: less_Suc_eq numeral_2_eq_2)
  have range: "(0::nat) < 2" "2 \<le> length [(11::int, 51::int), (12, 52), (13, 53)]"
    by simp_all
  show ?thesis
    using one_to_many_selects_minimum [where httpclient_get = "mocked [[Num 0, Num 100, Num 50, Num 50]]"
        and str = str_int and ds = "[0, 100, 50, 50]" and k = 2 and rows = "[]",
        OF get _ k least first range]
    by simp
qed

text \<open>
  Claim C3 as stated fails: the first row below contains the strictly positive duration 50,
  but the \<^verbatim>\<open>null\<close> of an unreachable destination raises \<^verbatim>\<open>TypeError\<close>.
\<close>

theorem one_to_many_null_counterexample:
  "get_travel_time_one_to_many str_int (mocked [[Num 0, Null, Num 50]])
     (14, 54) [(11, 51), (12, 52)] = Inl TypeError"
  by (simp add: get_travel_time_one_to_many_def mocked_def one_to_many_scan_def py_getitem_def
      sys_maxsize_def)

text \<open>
  When the source's own entry at position 0 is the least strictly positive one, index
  \<open>-1\<close> is looked up: the last destination is returned, with a travel time that is not its
  own.
\<close>

lemma one_to_many_own_entry_selected:
  "get_travel_time_one_to_many str_int (mocked [[Num 5, Num 10, Num 20]])
     (14, 54) [(11, 51), (12, 52)] = Inr (5 / 3600, (12, 52), (14, 54))"
  by (simp add: get_travel_time_one_to_many_def mocked_def one_to_many_scan_def py_getitem_def
      sys_maxsize_def)

section \<open>No strictly positive duration\<close>

text \<open>
  Claim C5, in the form that holds of the code. When the scanned entries (column 0 for many-to-one, the first row
  for one-to-many) are all numbers, none of them strictly positive, and the original
  coordinate list is not empty, the operation returns \<^verbatim>\<open>sys.maxsize\<close> divided by 3600
  together with the last element of that list (index \<open>-1\<close>).
\<close>

theorem no_positive_duration_returns_sentinel:
  "(httpclient_get (many_to_one_request str sources_longlats destination_longlat) = Inr response
      \<and> durations response = Some rows
      \<and> column0 rows = map (\<lambda>d. Inr (Num d)) ds
      \<and> (\<forall>d\<in>set ds. d \<le> 0) \<and> sources_longlats \<noteq> []
    \<longrightarrow> get_travel_time_many_to_one str httpclient_get sources_longlats destination_longlat
          = Inr (sys_maxsize / 3600, last sources_longlats, destination_longlat))
   \<and> (httpclient_get' (one_to_many_request str source_longlat destinations_longlats) = Inr response'
      \<and> durations response' = Some (map Num ds' # rows')
      \<and> (\<forall>d\<in>set ds'. d \<le> 0) \<and> destinations_longlats \<noteq> []
    \<longrightarrow> get_travel_time_one_to_many str httpclient_get' source_longlat destinations_longlats
          = Inr (sys_maxsize / 3600, last destinations_longlats, source_longlat))"
proof (intro conjI impI)
  assume a: "httpclient_get (many_to_one_request str sources_longlats destination_longlat) = Inr response
      \<and> durations response = Some rows
      \<and> column0 rows = map (\<lambda>d. Inr (Num d)) ds
      \<and> (\<forall>d\<in>set ds. d \<le> 0) \<and> sources_longlats \<noteq> []"
  then have "\<forall>d\<in>set ds. \<not> (0 < d \<and> d < sys_maxsize)" by auto
  then have "many_to_one_scan rows = Inr (sys_maxsize, - 1)"
    using a many_to_one_scan_column [of rows ds] by (simp add: shortest_loop_no_candidate)
  moreover have "py_getitem sources_longlats (- 1) = Inr (last sources_longlats)"
    using a by (cases sources_longlats rule: rev_cases) (simp_all add: py_getitem_def)
  ultimately show "get_travel_time_many_to_one str httpclient_get sources_longlats destination_longlat
          = Inr (sys_maxsize / 3600, last sources_longlats, destination_longlat)"
    using a by (simp add: get_travel_time_many_to_one_def)
next
  assume a: "httpclient_get' (one_to_many_request str source_longlat destinations_longlats) = Inr response'
      \<and> durations response' = Some (map Num ds' # rows')
      \<and> (\<forall>d\<in>set ds'. d \<le> 0) \<and> destinations_longlats \<noteq> []"
  then have "\<forall>d\<in>set ds'. \<not> (0 < d \<and> d < sys_maxsize)" by auto
  then have "one_to_many_scan (map Num ds') = Inr (sys_maxsize, - 1)"
    unfolding one_to_many_scan_def by (rule shortest_loop_no_candidate)
  moreover have "py_getitem destinations_longlats (- 1) = Inr (last destinations_longlats)"
    using a by (cases destinations_longlats rule: rev_cases) (simp_all add: py_getitem_def)
  ultimately show "get_travel_time_one_to_many str httpclient_get' source_longlat destinations_longlats
          = Inr (sys_maxsize / 3600, last destinations_longlats, source_longlat)"
    using a by (simp add: get_travel_time_one_to_many_def py_getitem_def)
qed

theorem no_positive_duration_returns_sentinel_witness:
  "get_travel_time_many_to_one str_int (mocked [[Num 0], [Num 0], [Num (- 3)]])
       [(11, 51), (12, 52)] (14, 54)
     = Inr (sys_maxsize / 3600, (12, 52), (14, 54))
   \<and> get_travel_time_one_to_many str_int (mocked [[Num 0, Num 0, Num (- 3)]])
       (14, 54) [(11, 51), (12, 52)]
     = Inr (sys_maxsize / 3600, (12, 52), (14, 54))"
  using no_positive_duration_returns_sentinel [where httpclient_get = "mocked [[Num 0], [Num 0], [Num (- 3)]]"
      and str = str_int and sources_longlats = "[(11, 51), (12, 52)]" and destination_longlat = "(14, 54)"
      and response = "\<lparr>durations = Some [[Num 0], [Num 0], [Num (- 3)]]\<rparr>"
      and rows = "[[Num 0], [Num 0], [Num (- 3)]]" and ds = "[0, 0, - 3]"
      and httpclient_get' = "mocked [[Num 0, Num 0, Num (- 3)]]"
      and source_longlat = "(14, 54)" and destinations_longlats = "[(11, 51), (12, 52)]"
      and response' = "\<lparr>durations = Some [[Num 0, Num 0, Num (- 3)]]\<rparr>"
      and ds' = "[0, 0, - 3]" and rows' = "[]"]
  by (simp add: mocked_def column0_def py_getitem_def)

text \<open>
  Claim C5 as stated fails: the column below has no strictly positive duration, and the
  operation raises \<^verbatim>\<open>TypeError\<close> on the \<^verbatim>\<open>null\<close> instead of returning the sentinel.
\<close>

theorem no_positive_duration_null_counterexample:
  "get_travel_time_many_to_one str_int (mocked [[Num 0], [Null]]) [(11, 51)] (14, 54)
     = Inl TypeError"
  by (simp add: get_travel_time_many_to_one_def mocked_def many_to_one_scan_def py_getitem_def
      sys_maxsize_def)

section \<open>What the scan selects\<close>

text \<open>
  Claim C4. Whenever many-to-one or one-to-many returns, the travel time is either the
  sentinel \<^verbatim>\<open>sys.maxsize\<close> divided by 3600 (no candidate was selected) or a scanned entry
  divided by 3600 whose duration is strictly positive: a zero or negative duration is never
  the one selected.
\<close>

theorem nonpositive_duration_never_selected:
  "(get_travel_time_many_to_one str httpclient_get sources_longlats destination_longlat = Inr (t, c, d)
      \<and> httpclient_get (many_to_one_request str sources_longlats destination_longlat) = Inr response
      \<and> durations response = Some rows
    \<longrightarrow> t = sys_maxsize / 3600
          \<or> (\<exists>k<length rows. \<exists>x. py_getitem (rows ! k) 0 = Inr (Num x) \<and> 0 < x \<and> t = x / 3600))
   \<and> (get_travel_time_one_to_many str httpclient_get' source_longlat destinations_longlats = Inr (t', c', d')
      \<and> httpclient_get' (one_to_many_request str source_longlat destinations_longlats) = Inr response'
      \<and> durations response' = Some (row # rows')
    \<longrightarrow> t' = sys_maxsize / 3600
          \<or> (\<exists>k<length row. \<exists>x. row ! k = Num x \<and> 0 < x \<and> t' = x / 3600))"
proof (intro conjI impI)
  assume a: "get_travel_time_many_to_one str httpclient_get sources_longlats destination_longlat = Inr (t, c, d)
      \<and> httpclient_get (many_to_one_request str sources_longlats destination_longlat) = Inr response
      \<and> durations response = Some rows"
  then obtain travel_time saved_idx where
    scan: "shortest_loop (\<lambda>obj. py_getitem obj 0) rows 0 (sys_maxsize, - 1) = Inr (travel_time, saved_idx)"
    and t: "t = travel_time / 3600"
    using many_to_one_returns [of str httpclient_get sources_longlats destination_longlat t c d response rows]
    by (auto simp: many_to_one_scan_def)
  from shortest_loop_result [OF scan]
  show "t = sys_maxsize / 3600
          \<or> (\<exists>k<length rows. \<exists>x. py_getitem (rows ! k) 0 = Inr (Num x) \<and> 0 < x \<and> t = x / 3600)"
  proof
    assume "travel_time = sys_maxsize \<and> saved_idx = - 1"
    then show ?thesis using t by simp
  next
    assume "\<exists>k<length rows. py_getitem (rows ! k) 0 = Inr (Num travel_time) \<and> 0 < travel_time
        \<and> travel_time < sys_maxsize \<and> saved_idx = 0 + int k - 1
        \<and> (\<forall>j<k. py_getitem (rows ! j) 0 \<noteq> Inr (Num travel_time))"
    then obtain k where "k < length rows" "py_getitem (rows ! k) 0 = Inr (Num travel_time)"
        "0 < travel_time"
      by blast
    then have "k < length rows \<and> py_getitem (rows ! k) 0 = Inr (Num travel_time)
        \<and> 0 < travel_time \<and> t = travel_time / 3600"
      using t by simp
    then show ?thesis by blast
  qed
next
  assume a: "get_travel_time_one_to_many str httpclient_get' source_longlat destinations_longlats = Inr (t', c', d')
      \<and> httpclient_get' (one_to_many_request str source_longlat destinations_longlats) = Inr response'
      \<and> durations response' = Some (row # rows')"
  then obtain travel_time saved_idx where
    scan: "shortest_loop Inr row 0 (sys_maxsize, - 1) = Inr (travel_time, saved_idx)"
    and t: "t' = travel_time / 3600"
    using one_to_many_returns [of str httpclient_get' source_longlat destinations_longlats t' c' d' response' row rows']
    by (auto simp: one_to_many_scan_def)
  from shortest_loop_result [OF scan]
  show "t' = sys_maxsize / 3600
          \<or> (\<exists>k<length row. \<exists>x. row ! k = Num x \<and> 0 < x \<and> t' = x / 3600)"
  proof
    assume "travel_time = sys_maxsize \<and> saved_idx = - 1"
    then show ?thesis using t by simp
  next
    assume "\<exists>k<length row. Inr (row ! k) = (Inr (Num travel_time) :: py_error + json_value)
        \<and> 0 < travel_time \<and> travel_time < sys_maxsize \<and> saved_idx = 0 + int k - 1
        \<and> (\<forall>j<k. Inr (row ! j) \<noteq> (Inr (Num travel_time) :: py_error + json_value))"
    then obtain k where "k < length row" "row ! k = Num travel_time" "0 < travel_time"
      by auto
    then have "k < length row \<and> row ! k = Num travel_time \<and> 0 < travel_time
        \<and> t' = travel_time / 3600"
      using t by simp
    then show ?thesis by blast
  qed
qed

theorem nonpositive_duration_never_selected_witness:
  "get_travel_time_many_to_one str_int (mocked [[Num 0], [Num 100], [Num (- 5)], [Num 200]])
       [(11, 51), (12, 52), (13, 53)] (14, 54) = Inr (100 / 3600, (11, 51), (14, 54))
   \<and> ((100::rat) / 3600 = sys_maxsize / 3600
      \<or> (\<exists>k<length [[Num 0], [Num 100], [Num (- 5)], [Num 200]]. \<exists>x.
            py_getitem ([[Num 0], [Num 100], [Num (- 5)], [Num 200]] ! k) 0 = Inr (Num x)
            \<and> 0 < x \<and> 100 / 3600 = x / 3600))
   \<and> get_travel_time_one_to_many str_int (mocked [[Num 0, Num 100, Num (- 5), Num 200]])
       (14, 54) [(11, 51), (12, 52), (13, 53)] = Inr (100 / 3600, (11, 51), (14, 54))
   \<and> ((100::rat) / 3600 = sys_maxsize / 3600
      \<or> (\<exists>k<length [Num 0, Num 100, Num (- 5), Num 200]. \<exists>x.
            [Num 0, Num 100, Num (- 5), Num 200] ! k = Num x \<and> 0 < x \<and> 100 / 3600 = x / 3600))"
proof -
  have m: "get_travel_time_many_to_one str_int (mocked [[Num 0], [Num 100], [Num (- 5)], [Num 200]])
        [(11, 51), (12, 52), (13, 53)] (14, 54) = Inr (100 / 3600, (11, 51), (14, 54))"
    by (simp add: get_travel_time_many_to_one_def mocked_def many_to_one_scan_def py_getitem_def
        sys_maxsize_def)
  have mg: "mocked [[Num 0], [Num 100], [Num (- 5)], [Num 200]]
          (many_to_one_request str_int [(11, 51), (12, 52), (13, 53)] (14, 54))
        = Inr \<lparr>durations = Some [[Num 0], [Num 100], [Num (- 5)], [Num 200]]\<rparr>
      \<and> durations \<lparr>durations = Some [[Num 0], [Num 100], [Num (- 5)], [Num 200]]\<rparr>
        = Some [[Num 0], [Num 100], [Num (- 5)], [Num 200]]"
    by (simp add: mocked_def)
  have o: "get_travel_time_one_to_many str_int (mocked [[Num 0, Num 100, Num (- 5), Num 200]])
        (14, 54) [(11, 51), (12, 52), (13, 53)] = Inr (100 / 3600, (11, 51), (14, 54))"
    by (simp add: get_travel_time_one_to_many_def mocked_def one_to_many_scan_def py_getitem_def
        sys_maxsize_def)
  have og: "mocked [[Num 0, Num 100, Num (- 5), Num 200]]
          (one_to_many_request str_int (14, 54) [(11, 51), (12, 52), (13, 53)])
        = Inr \<lparr>durations = Some [[Num 0, Num 100, Num (- 5), Num 200]]\<rparr>
      \<and> durations \<lparr>durations = Some [[Num 0, Num 100, Num (- 5), Num 200]]\<rparr>
        = Some ([Num 0, Num 100, Num (- 5), Num 200] # [])"
    by (simp add: mocked_def)
  from nonpositive_duration_never_selected
    [where str = str_int and httpclient_get = "mocked [[Num 0], [Num 100], [Num (- 5)], [Num 200]]"
      and sources_longlats = "[(11, 51), (12, 52), (13, 53)]" and destination_longlat = "(14, 54)"
      and t = "100 / 3600" and c = "(11, 51)" and d = "(14, 54)"
      and response = "\<lparr>durations = Some [[Num 0], [Num 100], [Num (- 5)], [Num 200]]\<rparr>"
      and rows = "[[Num 0], [Num 100], [Num (- 5)], [Num 200]]"
      and httpclient_get' = "mocked [[Num 0, Num 100, Num (- 5), Num 200]]"
      and source_longlat = "(14, 54)" and destinations_longlats = "[(11, 51), (12, 52), (13, 53)]"
      and t' = "100 / 3600" and c' = "(11, 51)" and d' = "(14, 54)"
      and response' = "\<lparr>durations = Some [[Num 0, Num 100, Num (- 5), Num 200]]\<rparr>"
      and row = "[Num 0, Num 100, Num (- 5), Num 200]" and rows' = "[]"]
  show ?thesis
    using m mg o og by blast
qed




section \<open>The request URL\<close>

text \<open>The loop appends one \<^verbatim>\<open>longitude,latitude;\<close> to \<^verbatim>\<open>data\<close> for every location.\<close>

lemma build_data_concat:
  "build_data str locations data
     = data @ concat (map (\<lambda>obj. spec_pair str obj @ '';'') locations)"
  by (induction locations arbitrary: data) (simp_all add: spec_pair_def)

lemma concat_terminated:
  "ps \<noteq> [] \<Longrightarrow> concat (map (\<lambda>p. p @ '';'') ps) = spec_joined ps @ '';''"
  by (induction ps rule: spec_joined.induct) simp_all

lemma spec_joined_last:
  "ps \<noteq> [] \<Longrightarrow> \<forall>p\<in>set ps. p \<noteq> [] \<and> last p \<noteq> CHR '';'' \<Longrightarrow>
   spec_joined ps \<noteq> [] \<and> last (spec_joined ps) \<noteq> CHR '';''"
  by (induction ps rule: spec_joined.induct) simp_all

lemma rstrip_semicolon_one:
  "s \<noteq> [] \<Longrightarrow> last s \<noteq> CHR '';'' \<Longrightarrow> rstrip_semicolon (s @ '';'') = s"
  by (cases s rule: rev_cases) (simp_all add: rstrip_semicolon_def)

lemma spec_pair_last:
  "\<forall>x. CHR '';'' \<notin> set (str x) \<Longrightarrow>
   spec_pair str obj \<noteq> [] \<and> last (spec_pair str obj) \<noteq> CHR '';''"
proof -
  assume a: "\<forall>x. CHR '';'' \<notin> set (str x)"
  show ?thesis
  proof (cases "str (snd obj) = []")
    case True
    then show ?thesis by (simp add: spec_pair_def)
  next
    case False
    then have "last (str (snd obj)) \<in> set (str (snd obj))" by simp
    then have "last (str (snd obj)) \<noteq> CHR '';''" using a by metis
    then show ?thesis using False by (simp add: spec_pair_def)
  qed
qed

text \<open>
  When \<^verbatim>\<open>str\<close> never prints a semicolon, stripping the trailing semicolons removes
  exactly the one the loop appended last: the code's string is the specification's.
\<close>

lemma data_obj_joined:
  assumes "\<forall>x. CHR '';'' \<notin> set (str x)"
  shows "data_obj str locations = spec_joined (map (spec_pair str) locations)"
proof (cases "locations = []")
  case True
  then show ?thesis by (simp add: data_obj_def rstrip_semicolon_def)
next
  case False
  let ?ps = "map (spec_pair str) locations"
  have ne: "?ps \<noteq> []" using False by simp
  have each: "\<forall>p\<in>set ?ps. p \<noteq> [] \<and> last p \<noteq> CHR '';''"
    using spec_pair_last [OF assms] by auto
  have "build_data str locations [] = spec_joined ?ps @ '';''"
    using concat_terminated [OF ne] by (simp add: build_data_concat comp_def)
  then show ?thesis
    using spec_joined_last [OF ne each] by (simp add: data_obj_def rstrip_semicolon_one)
qed

text \<open>Python's \<^verbatim>\<open>str\<close> on an \<^verbatim>\<open>int\<close> prints digits and a minus sign only.\<close>

lemma digit_nth_mem: "k < 10 \<Longrightarrow> ''0123456789'' ! k \<in> set ''0123456789''"
  by (rule nth_mem) simp

lemma str_nat_digits: "set (str_nat n) \<subseteq> set ''0123456789''"
proof (induction n rule: str_nat.induct)
  case (1 n)
  show ?case
  proof (cases "n < 10")
    case True
    then show ?thesis
      using digit_nth_mem [of n] by (subst str_nat.simps) simp
  next
    case False
    have "n mod 10 < 10" by simp
    then have "''0123456789'' ! (n mod 10) \<in> set ''0123456789''" by (rule digit_nth_mem)
    then show ?thesis
      using 1 False by (subst str_nat.simps) simp
  qed
qed

lemma str_nat_not_empty: "str_nat n \<noteq> []"
  by (subst str_nat.simps) simp

lemma str_nat_no_separator:
  "CHR '';'' \<notin> set (str_nat n) \<and> CHR '','' \<notin> set (str_nat n) \<and> CHR ''-'' \<notin> set (str_nat n)"
proof -
  have "CHR '';'' \<notin> set ''0123456789''" "CHR '','' \<notin> set ''0123456789''"
      "CHR ''-'' \<notin> set ''0123456789''"
    by simp_all
  then show ?thesis
    using str_nat_digits [of n] by blast
qed

lemma str_int_no_separator:
  "CHR '';'' \<notin> set (str_int i) \<and> CHR '','' \<notin> set (str_int i)"
  using str_nat_no_separator [of "nat i"] str_nat_no_separator [of "nat (- i)"]
  by (simp add: str_int_def)

text \<open>
  Claim C7. Provided \<^verbatim>\<open>str\<close> never prints a semicolon (it does not on numbers), the URL
  of every call is the fixed prefix \<open>url\<close>, then the combined location list
  (destination first for many-to-one, source first for one-to-many, source then destination
  for one-to-one) as \<^verbatim>\<open>longitude,latitude\<close> pairs joined by \<^verbatim>\<open>;\<close>, then
  \<^verbatim>\<open>?destinations=0&skip_waypoints=true\<close>, \<^verbatim>\<open>?sources=0&skip_waypoints=true\<close> or
  \<^verbatim>\<open>?sources=0&destinations=1&skip_waypoints=true\<close>; and the joined pairs do not end in
  a separator.
\<close>

theorem request_url_format:
  assumes "\<forall>x. CHR '';'' \<notin> set (str x)"
  shows "call_url (many_to_one_request str sources_longlats destination_longlat)
           = url @ spec_joined (map (spec_pair str) (destination_longlat # sources_longlats))
               @ ''?destinations=0&skip_waypoints=true''
         \<and> call_url (one_to_many_request str source_longlat destinations_longlats)
           = url @ spec_joined (map (spec_pair str) (source_longlat # destinations_longlats))
               @ ''?sources=0&skip_waypoints=true''
         \<and> call_url (one_to_one_request str source_longlat' destination_longlat')
           = url @ spec_joined (map (spec_pair str) [source_longlat', destination_longlat'])
               @ ''?sources=0&destinations=1&skip_waypoints=true''
         \<and> last (spec_joined (map (spec_pair str) (destination_longlat # sources_longlats))) \<noteq> CHR '';''
         \<and> last (spec_joined (map (spec_pair str) (source_longlat # destinations_longlats))) \<noteq> CHR '';''
         \<and> last (spec_joined (map (spec_pair str) [source_longlat', destination_longlat'])) \<noteq> CHR '';''"
proof -
  have last_ok: "last (spec_joined (map (spec_pair str) (obj # rest))) \<noteq> CHR '';''" for obj rest
  proof -
    have "\<forall>p\<in>set (map (spec_pair str) (obj # rest)). p \<noteq> [] \<and> last p \<noteq> CHR '';''"
      using spec_pair_last [OF assms] by auto
    then show ?thesis
      using spec_joined_last [of "map (spec_pair str) (obj # rest)"] by simp
  qed
  have "call_url (many_to_one_request str sources_longlats destination_longlat)
           = url @ spec_joined (map (spec_pair str) (destination_longlat # sources_longlats))
               @ ''?destinations=0&skip_waypoints=true''"
    by (simp add: many_to_one_request_def Let_def data_obj_joined [OF assms])
  moreover have "call_url (one_to_many_request str source_longlat destinations_longlats)
           = url @ spec_joined (map (spec_pair str) (source_longlat # destinations_longlats))
               @ ''?sources=0&skip_waypoints=true''"
    by (simp add: one_to_many_request_def Let_def data_obj_joined [OF assms])
  moreover have "call_url (one_to_one_request str source_longlat' destination_longlat')
           = url @ spec_joined (map (spec_pair str) [source_longlat', destination_longlat'])
               @ ''?sources=0&destinations=1&skip_waypoints=true''"
    by (simp add: one_to_one_request_def Let_def data_obj_joined [OF assms])
  ultimately show ?thesis using last_ok by blast
qed

theorem request_url_format_witness:
  "call_url (many_to_one_request str_int [(11, 51), (- 12, 52)] (14, 54))
     = ''http://127.0.0.1:5001/table/v1/driving/14,54;11,51;-12,52?destinations=0&skip_waypoints=true''
   \<and> call_url (one_to_many_request str_int (14, 54) [(11, 51), (- 12, 52)])
     = ''http://127.0.0.1:5001/table/v1/driving/14,54;11,51;-12,52?sources=0&skip_waypoints=true''
   \<and> call_url (one_to_one_request str_int (11, 51) (14, 54))
     = ''http://127.0.0.1:5001/table/v1/driving/11,51;14,54?sources=0&destinations=1&skip_waypoints=true''"
proof -
  have no: "\<forall>x. CHR '';'' \<notin> set (str_int x)"
    using str_int_no_separator by simp
  have s: "str_int 11 = ''11''" "str_int 51 = ''51''" "str_int (- 12) = ''-12''" "str_int 52 = ''52''"
      "str_int 14 = ''14''" "str_int 54 = ''54''"
    by (simp_all add: str_int_def str_nat.simps)
  show ?thesis
    using request_url_format [OF no, of "[(11, 51), (- 12, 52)]" "(14, 54)" "(14, 54)"
        "[(11, 51), (- 12, 52)]" "(11, 51)" "(14, 54)"]
    by (simp add: s spec_pair_def url_def ip_address_def port_def)
qed

section \<open>Serialising and re-parsing\<close>

text \<open>Splitting at a separator undoes joining with it.\<close>

lemma split_on_no_sep: "sep \<notin> set u \<Longrightarrow> split_on sep u = [u]"
  by (induction u) auto

lemma split_on_at_sep:
  "sep \<notin> set u \<Longrightarrow> split_on sep (u @ sep # v) = u # split_on sep v"
  by (induction u) auto

lemma split_on_joined:
  "ps \<noteq> [] \<Longrightarrow> \<forall>p\<in>set ps. CHR '';'' \<notin> set p \<Longrightarrow> split_on CHR '';'' (spec_joined ps) = ps"
proof (induction ps rule: spec_joined.induct)
  case 1
  then show ?case by simp
next
  case (2 p)
  then show ?case by (simp add: split_on_no_sep)
next
  case (3 p q ps)
  then show ?case by (simp add: split_on_at_sep)
qed

lemma spec_parse_pair_inverse:
  assumes "\<forall>x. unstr (str x) = Some x" and "\<forall>x. CHR '','' \<notin> set (str x)"
  shows "spec_parse_pair unstr (spec_pair str obj) = Some obj"
proof -
  have "split_on CHR '','' (str (fst obj) @ CHR '','' # str (snd obj)) = [str (fst obj), str (snd obj)]"
    using assms(2) by (simp add: split_on_at_sep split_on_no_sep)
  then show ?thesis
    using assms(1) by (simp add: spec_parse_pair_def spec_pair_def)
qed

lemma those_map_Some: "\<forall>x\<in>set xs. f (g x) = Some x \<Longrightarrow> those (map f (map g xs)) = Some xs"
  by (induction xs) simp_all

text \<open>Python's \<^verbatim>\<open>int\<close> reads back what \<^verbatim>\<open>str\<close> prints of an int.\<close>

lemma digit_of_digit: "k < 10 \<Longrightarrow> digit_of (''0123456789'' ! k) = k"
proof -
  assume "k < 10"
  then have "k = 0 \<or> k = 1 \<or> k = 2 \<or> k = 3 \<or> k = 4 \<or> k = 5 \<or> k = 6 \<or> k = 7 \<or> k = 8 \<or> k = 9"
    by arith
  then show ?thesis by (elim disjE) (simp_all add: digit_of_def)
qed

lemma digits_value_snoc:
  "foldl (\<lambda>a c. 10 * a + digit_of c) 0 (s @ [c]) = 10 * foldl (\<lambda>a c. 10 * a + digit_of c) 0 s + digit_of c"
  by simp

lemma digits_value_inverse: "foldl (\<lambda>a c. 10 * a + digit_of c) 0 (str_nat n) = n"
proof (induction n rule: str_nat.induct)
  case (1 n)
  show ?case
  proof (cases "n < 10")
    case True
    then have "foldl (\<lambda>a c. 10 * a + digit_of c) 0 [''0123456789'' ! n] = n"
      using digit_of_digit [of n] by simp
    then show ?thesis
      using True by (subst str_nat.simps) (simp only: if_True)
  next
    case False
    have "n mod 10 < 10" by simp
    then have "digit_of (''0123456789'' ! (n mod 10)) = n mod 10" by (rule digit_of_digit)
    then have "foldl (\<lambda>a c. 10 * a + digit_of c) 0 (str_nat (n div 10) @ [''0123456789'' ! (n mod 10)]) = n"
      using 1 False by (simp only: digits_value_snoc) simp
    then show ?thesis
      using False by (subst str_nat.simps) (simp only: if_False)
  qed
qed

lemma nat_of_str_inverse: "nat_of_str (str_nat n) = Some n"
proof -
  have "list_all (\<lambda>c. c \<in> set ''0123456789'') (str_nat n)"
    using str_nat_digits [of n] by (simp only: list_all_iff) blast
  then show ?thesis
    using str_nat_not_empty [of n] digits_value_inverse [of n] by (simp only: nat_of_str_def) simp
qed

lemma int_of_str_inverse: "int_of_str (str_int i) = Some i"
proof (cases "i < 0")
  case True
  then show ?thesis
    by (simp add: int_of_str_def str_int_def nat_of_str_inverse)
next
  case False
  obtain c cs where s: "str_nat (nat i) = c # cs"
    using str_nat_not_empty [of "nat i"] by (cases "str_nat (nat i)") auto
  then have "c \<in> set (str_nat (nat i))" by simp
  then have "c \<noteq> CHR ''-''" using str_nat_no_separator [of "nat i"] by metis
  moreover have "nat_of_str (c # cs) = Some (nat i)"
    using nat_of_str_inverse [of "nat i"] s by simp
  ultimately show ?thesis
    using False s by (simp add: int_of_str_def str_int_def)
qed

text \<open>
  Claim C6. Provided \<^verbatim>\<open>str\<close> never prints a comma or a semicolon and \<open>unstr\<close> reads
  back what \<^verbatim>\<open>str\<close> prints (as \<^verbatim>\<open>float\<close> does for the \<^verbatim>\<open>str\<close> of a float, and
  \<^verbatim>\<open>int\<close> for that of an int), re-parsing the request string of any coordinate list, as
  the code serialises it, gives back that list.
\<close>

theorem serialized_locations_round_trip:
  assumes "\<forall>x. unstr (str x) = Some x"
    and "\<forall>x. CHR '';'' \<notin> set (str x) \<and> CHR '','' \<notin> set (str x)"
  shows "spec_parse unstr (data_obj str locations) = Some locations"
proof (cases "locations = []")
  case True
  then show ?thesis by (simp add: spec_parse_def data_obj_def rstrip_semicolon_def)
next
  case False
  let ?ps = "map (spec_pair str) locations"
  have semi: "\<forall>x. CHR '';'' \<notin> set (str x)" using assms(2) by simp
  have comma: "\<forall>x. CHR '','' \<notin> set (str x)" using assms(2) by simp
  have data: "data_obj str locations = spec_joined ?ps"
    by (rule data_obj_joined [OF semi])
  have ne: "?ps \<noteq> []" using False by simp
  have each: "\<forall>p\<in>set ?ps. p \<noteq> [] \<and> last p \<noteq> CHR '';''"
    using spec_pair_last [OF semi] by auto
  have nonempty: "spec_joined ?ps \<noteq> []"
    using spec_joined_last [OF ne each] by simp
  have "\<forall>p\<in>set ?ps. CHR '';'' \<notin> set p"
    using semi by (auto simp: spec_pair_def)
  then have split: "split_on CHR '';'' (spec_joined ?ps) = ?ps"
    by (rule split_on_joined [OF ne])
  have "those (map (spec_parse_pair unstr) ?ps) = Some locations"
    by (rule those_map_Some) (simp add: spec_parse_pair_inverse [OF assms(1) comma])
  then show ?thesis
    using data nonempty split by (simp add: spec_parse_def)
qed

theorem serialized_locations_round_trip_witness:
  "data_obj str_int [(14, 54), (11, 51), (- 12, 52)] = ''14,54;11,51;-12,52''
   \<and> spec_parse int_of_str (data_obj str_int [(14, 54), (11, 51), (- 12, 52)])
     = Some [(14, 54), (11, 51), (- 12, 52)]"
proof -
  have inv: "\<forall>x. int_of_str (str_int x) = Some x"
    by (simp add: int_of_str_inverse)
  have no: "\<forall>x. CHR '';'' \<notin> set (str_int x) \<and> CHR '','' \<notin> set (str_int x)"
    using str_int_no_separator by simp
  have s: "str_int 11 = ''11''" "str_int 51 = ''51''" "str_int (- 12) = ''-12''" "str_int 52 = ''52''"
      "str_int 14 = ''14''" "str_int 54 = ''54''"
    by (simp_all add: str_int_def str_nat.simps)
  have "data_obj str_int [(14, 54), (11, 51), (- 12, 52)] = ''14,54;11,51;-12,52''"
    by (simp add: data_obj_def rstrip_semicolon_def s)
  then show ?thesis
    using serialized_locations_round_trip [OF inv no, of "[(14, 54), (11, 51), (- 12, 52)]"]
    by simp
qed

text \<open>
  The re-parsing is strict about the format: it reads the request string of three locations,
  and it refuses a string that ends in a separator, as \<^verbatim>\<open>data\<close> does before
  \<^verbatim>\<open>rstrip\<close>.
\<close>

lemma spec_parse_trailing_separator:
  "spec_parse int_of_str ''14,54;11,51;'' = None"
  by (simp add: spec_parse_def spec_parse_pair_def int_of_str_def nat_of_str_def digit_of_def)

lemma spec_parse_request_string:
  "spec_parse int_of_str ''14,54;11,51;-12,52'' = Some [(14, 54), (11, 51), (- 12, 52)]"
  by (simp add: spec_parse_def spec_parse_pair_def int_of_str_def nat_of_str_def digit_of_def)

text \<open>What is not a decimal literal is not read.\<close>

lemma int_of_str_refuses:
  "int_of_str ''12a'' = None \<and> int_of_str ''-'' = None \<and> int_of_str [] = None"
  by (simp add: int_of_str_def nat_of_str_def)

end
